theory Spec2Isabelle
  imports Complex_Main
begin

section \<open>JavaScript values\<close>

text \<open>
  The API client never validates what the server sends: a response body is whatever
  \<^verbatim>\<open>response.json()\<close> yields, cast to the TypeScript type the caller expects. Bodies and
  everything computed from them are therefore values of the language, not typed records.
  Numbers are integers here: the operations below only count, index and compare whole
  numbers (lengths, totals, status codes, delays); \<open>JNaN\<close> is what \<^verbatim>\<open>parseInt\<close> yields on
  a text without digits. An object is the list of its own properties.
\<close>

datatype jsval =
    JUndefined
  | JNull
  | JBool bool
  | JNum int
  | JNaN
  | JStr string
  | JArr "jsval list"
  | JObj "(string \<times> jsval) list"

text \<open>Truthiness, as tested by \<^verbatim>\<open>!x\<close>, \<^verbatim>\<open>x ? a : b\<close> and \<^verbatim>\<open>x || y\<close>.\<close>

fun truthy :: "jsval \<Rightarrow> bool" where
  "truthy JUndefined = False"
| "truthy JNull = False"
| "truthy (JBool b) = b"
| "truthy (JNum n) = (n \<noteq> 0)"
| "truthy JNaN = False"
| "truthy (JStr s) = (s \<noteq> [])"
| "truthy (JArr xs) = True"
| "truthy (JObj kvs) = True"

text \<open>\<^verbatim>\<open>a || b\<close>: the left operand when it is truthy, else the right one.\<close>

definition js_or :: "jsval \<Rightarrow> jsval \<Rightarrow> jsval" where
  "js_or a b = (if truthy a then a else b)"

text \<open>\<^verbatim>\<open>Array.isArray(x)\<close>.\<close>

fun isArray :: "jsval \<Rightarrow> bool" where
  "isArray (JArr xs) = True"
| "isArray v = False"

text \<open>
  Reading a property \<^verbatim>\<open>x.k\<close>, for the property names the client reads (\<^verbatim>\<open>products\<close>,
  \<^verbatim>\<open>data\<close>, \<^verbatim>\<open>total\<close>, \<^verbatim>\<open>totalCount\<close>, \<^verbatim>\<open>message\<close>, \<^verbatim>\<open>id\<close>, \<^verbatim>\<open>token\<close>). On \<^verbatim>\<open>null\<close> and
  \<^verbatim>\<open>undefined\<close> the engine throws a TypeError, so every read below is guarded by
  \<open>nullish\<close>. An object yields the property or \<^verbatim>\<open>undefined\<close>; numbers, booleans, texts
  and arrays have no property of these names.
\<close>

fun nullish :: "jsval \<Rightarrow> bool" where
  "nullish JUndefined = True"
| "nullish JNull = True"
| "nullish v = False"

fun property :: "jsval \<Rightarrow> string \<Rightarrow> jsval" where
  "property (JObj kvs) k = (case map_of kvs k of None \<Rightarrow> JUndefined | Some v \<Rightarrow> v)"
| "property v k = JUndefined"

text \<open>\<^verbatim>\<open>x.length\<close> of a value that is not \<^verbatim>\<open>null\<close> or \<^verbatim>\<open>undefined\<close>.\<close>

fun js_length :: "jsval \<Rightarrow> jsval" where
  "js_length (JArr xs) = JNum (int (length xs))"
| "js_length (JStr s) = JNum (int (length s))"
| "js_length (JObj kvs) = (case map_of kvs ''length'' of None \<Rightarrow> JUndefined | Some v \<Rightarrow> v)"
| "js_length v = JUndefined"

text \<open>\<^verbatim>\<open>xs[0]\<close> of an array: the first element, \<^verbatim>\<open>undefined\<close> when there is none.\<close>

fun first_elem :: "jsval list \<Rightarrow> jsval" where
  "first_elem [] = JUndefined"
| "first_elem (x # xs) = x"

subsection \<open>Texts and numbers\<close>

definition digit_char :: "nat \<Rightarrow> char" where
  "digit_char d = ''0123456789'' ! d"

fun show_nat :: "nat \<Rightarrow> string" where
  "show_nat n = (if n < 10 then [digit_char n] else show_nat (n div 10) @ [digit_char (n mod 10)])"

definition show_int :: "int \<Rightarrow> string" where
  "show_int i = (if i < 0 then CHR ''-'' # show_nat (nat (- i)) else show_nat (nat i))"

fun intersperse :: "string \<Rightarrow> string list \<Rightarrow> string" where
  "intersperse sep [] = []"
| "intersperse sep [s] = s"
| "intersperse sep (s # t # ss) = s @ sep @ intersperse sep (t # ss)"

text \<open>
  The conversion to a text that \<^verbatim>\<open>new Error(x)\<close> and \<^verbatim>\<open>localStorage.setItem(k, x)\<close>
  apply to their argument. An array joins its elements with commas, \<^verbatim>\<open>null\<close> and
  \<^verbatim>\<open>undefined\<close> elements giving the empty text. Numbers print in decimal digits, as the
  language does below \<open>10\<^sup>2\<^sup>1\<close>; an object is one parsed from JSON with no property
  named \<^verbatim>\<open>toString\<close> or \<^verbatim>\<open>valueOf\<close> of its own.
\<close>

fun toString :: "jsval \<Rightarrow> string" where
  "toString JUndefined = ''undefined''"
| "toString JNull = ''null''"
| "toString (JBool b) = (if b then ''true'' else ''false'')"
| "toString (JNum n) = show_int n"
| "toString JNaN = ''NaN''"
| "toString (JStr s) = s"
| "toString (JArr xs) =
     intersperse '',''
       (map (\<lambda>x. if x = JUndefined \<or> x = JNull then [] else toString x) xs)"
| "toString (JObj kvs) = ''[object Object]''"

text \<open>\<^verbatim>\<open>s.includes(p)\<close>: \<open>p\<close> occurs in \<open>s\<close> as a contiguous run.\<close>

fun starts_with :: "string \<Rightarrow> string \<Rightarrow> bool" where
  "starts_with s [] = True"
| "starts_with [] (p # ps) = False"
| "starts_with (c # cs) (p # ps) = (c = p \<and> starts_with cs ps)"

fun includes_text :: "string \<Rightarrow> string \<Rightarrow> bool" where
  "includes_text [] p = (p = [])"
| "includes_text (c # cs) p = (starts_with (c # cs) p \<or> includes_text cs p)"

text \<open>
  \<^verbatim>\<open>parseInt(s, 10)\<close>: leading white space is skipped, then an optional sign, then the
  longest run of decimal digits is read; with no digit the result is \<^verbatim>\<open>NaN\<close> (\<open>None\<close>).
  Header values are ASCII, so the white space is the ASCII one.
\<close>

definition is_space :: "char \<Rightarrow> bool" where
  "is_space c = (of_char c \<in> {9, 10, 11, 12, 13, 32 :: nat})"

definition is_digit :: "char \<Rightarrow> bool" where
  "is_digit c = (48 \<le> (of_char c :: nat) \<and> (of_char c :: nat) \<le> 57)"

definition digit_val :: "char \<Rightarrow> nat" where
  "digit_val c = of_char c - 48"

definition digits_val :: "string \<Rightarrow> nat" where
  "digits_val z = foldl (\<lambda>a c. 10 * a + digit_val c) 0 z"

definition parseInt :: "string \<Rightarrow> int option" where
  "parseInt s =
     (let t = dropWhile is_space s;
          neg = (case t of [] \<Rightarrow> False | c # r \<Rightarrow> c = CHR ''-'');
          u = (case t of [] \<Rightarrow> [] | c # r \<Rightarrow> if c = CHR ''-'' \<or> c = CHR ''+'' then r else t);
          z = takeWhile is_digit u
      in if z = [] then None
         else Some ((if neg then - 1 else 1) * int (digits_val z)))"

text \<open>The result of \<^verbatim>\<open>parseInt\<close> as a value.\<close>

definition parseInt_val :: "string \<Rightarrow> jsval" where
  "parseInt_val s = (case parseInt s of None \<Rightarrow> JNaN | Some n \<Rightarrow> JNum n)"

section \<open>Catalog state container (productsSlice)\<close>

record Category =
  category_id :: string
  category_name :: string
  category_image :: string
  category_description :: "string option"
  category_createdAt :: string
  category_updatedAt :: string

record Product =
  product_id :: string
  product_name :: string
  product_description :: string
  product_images :: "string list"
  product_price :: real
  product_slug :: string
  product_createdAt :: string
  product_updatedAt :: string
  product_category :: Category

record CategoriesPage =
  categories_list :: "Category list"
  categories_total :: int

record ProductsResponse =
  response_products :: "Product list"
  response_total :: int

record ProductsState =
  products :: "Product list"
  categories :: "CategoriesPage option"
  loading :: bool
  error :: "string option"
  currentPage :: int
  itemsPerPage :: int
  searchQuery :: string
  totalCount :: int

definition initialState :: ProductsState where
  "initialState =
     \<lparr> products = [], categories = None, loading = False, error = None,
       currentPage = 1, itemsPerPage = 9, searchQuery = [], totalCount = 0 \<rparr>"

text \<open>
  The actions the slice reacts to. A rejected action carries \<^verbatim>\<open>action.error.message\<close>,
  which may be missing. Every other action (\<open>OtherAction\<close>: the pending and rejected
  actions of \<^verbatim>\<open>deleteProduct\<close>, the pending action of \<^verbatim>\<open>fetchCategories\<close>, foreign
  actions) has no case in the slice.
\<close>

datatype action =
    SetSearchQuery string
  | SetCurrentPage int
  | FetchProductsPending
  | FetchProductsFulfilled ProductsResponse
  | FetchProductsRejected "string option"
  | FetchCategoriesFulfilled CategoriesPage
  | FetchCategoriesRejected "string option"
  | DeleteProductFulfilled string
  | OtherAction

text \<open>\<^verbatim>\<open>message || fallback\<close> on an optional text.\<close>

fun message_or :: "string option \<Rightarrow> string \<Rightarrow> string" where
  "message_or None d = d"
| "message_or (Some m) d = (if m = [] then d else m)"

fun reducer :: "ProductsState \<Rightarrow> action \<Rightarrow> ProductsState" where
  "reducer state (SetSearchQuery q) = state\<lparr> searchQuery := q, currentPage := 1 \<rparr>"
| "reducer state (SetCurrentPage n) = state\<lparr> currentPage := n \<rparr>"
| "reducer state FetchProductsPending = state\<lparr> loading := True, error := None \<rparr>"
| "reducer state (FetchProductsFulfilled payload) =
     state\<lparr> loading := False,
            products := response_products payload,
            totalCount := response_total payload \<rparr>"
| "reducer state (FetchProductsRejected msg) =
     state\<lparr> loading := False, error := Some (message_or msg ''Failed to fetch products'') \<rparr>"
| "reducer state (FetchCategoriesFulfilled payload) =
     state\<lparr> loading := False,
            categories := Some \<lparr> categories_list = categories_list payload,
                                 categories_total = categories_total payload \<rparr> \<rparr>"
| "reducer state (FetchCategoriesRejected msg) =
     state\<lparr> loading := False, error := Some (message_or msg ''Failed to fetch categories'') \<rparr>"
| "reducer state (DeleteProductFulfilled deleted) =
     state\<lparr> products := filter (\<lambda>product. product_id product \<noteq> deleted) (products state),
            totalCount := max 0 (totalCount state - 1) \<rparr>"
| "reducer state OtherAction = state"

subsection \<open>Example states\<close>

text \<open>
  Two states used to evaluate the reducer: a page with a lamp and a chair, and a page
  on which the lamp occurs twice.
\<close>

abbreviation home :: Category where
  "home \<equiv> \<lparr> category_id = ''c1'', category_name = ''Home'', category_image = [],
            category_description = None, category_createdAt = ''2025-10-16'',
            category_updatedAt = ''2025-10-16'' \<rparr>"

abbreviation lamp :: Product where
  "lamp \<equiv> \<lparr> product_id = ''a'', product_name = ''Lamp'', product_description = ''Desk lamp'',
            product_images = [], product_price = 10, product_slug = ''lamp'',
            product_createdAt = ''2025-10-16'', product_updatedAt = ''2025-10-16'',
            product_category = home \<rparr>"

abbreviation chair :: Product where
  "chair \<equiv> \<lparr> product_id = ''b'', product_name = ''Chair'', product_description = ''Oak chair'',
             product_images = [], product_price = 45, product_slug = ''chair'',
             product_createdAt = ''2025-10-16'', product_updatedAt = ''2025-10-16'',
             product_category = home \<rparr>"

abbreviation two_products :: ProductsState where
  "two_products \<equiv> initialState\<lparr> products := [lamp, chair], totalCount := 2 \<rparr>"

abbreviation twin_products :: ProductsState where
  "twin_products \<equiv> initialState\<lparr> products := [lamp, lamp], totalCount := 2 \<rparr>"

subsection \<open>Pagination of the list view (Products.tsx)\<close>

text \<open>
  \<^verbatim>\<open>Math.max(1, Math.ceil(totalCount / itemsPerPage))\<close>. The division is the real one.
  With \<open>itemsPerPage = 0\<close> the quotient is not a number of pages: \<^verbatim>\<open>Infinity\<close> for a
  positive total, \<^verbatim>\<open>NaN\<close> for a zero total, and \<^verbatim>\<open>-Infinity\<close> (which the maximum
  turns into 1) for a negative one.
\<close>

datatype pages = Pages int | InfinitePages | NaNPages

definition totalPages :: "int \<Rightarrow> int \<Rightarrow> pages" where
  "totalPages count perPage =
     (if perPage = 0 then
        (if count > 0 then InfinitePages else if count = 0 then NaNPages else Pages 1)
      else Pages (max 1 \<lceil>real_of_int count / real_of_int perPage\<rceil>))"

section \<open>The environment of the client\<close>

text \<open>
  The client works on three things outside itself: the browser storage holding the
  bearer token, the network, and timers. They are the fields of \<open>world\<close>, threaded
  through every operation. Requests are logged in the order they are sent, delays in the
  order they are waited for, so that "no network call was made" is a statement about
  \<open>sent\<close>.
\<close>

datatype http_method = GET | POST | PUT | DELETE

record ProductFields =
  fields_name :: string
  fields_description :: "string option"
  fields_price :: real
  fields_categoryId :: string
  fields_images :: "string list option"

datatype sent_body = NoBody | EmailBody string | FieldsBody ProductFields

text \<open>
  A request: the method, the URL up to the query, the query parameters with their decoded
  values, the headers and the body.
\<close>

record request =
  req_method :: http_method
  req_url :: string
  req_query :: "(string \<times> string) list"
  req_headers :: "(string \<times> string) list"
  req_body :: sent_body

text \<open>
  What \<^verbatim>\<open>response.json()\<close> resolves to, or the message of the SyntaxError it rejects with.
\<close>

datatype received_body = Json jsval | NotJson string

text \<open>A response. Header names are stored in lower case, as the Headers object does.\<close>

record response =
  status :: nat
  statusText :: string
  headers :: "(string \<times> string) list"
  body :: received_body

text \<open>\<^verbatim>\<open>fetch\<close> resolves to a response or rejects with an error (its message).\<close>

datatype fetched = Rejected string | Response response

text \<open>
  The server answers a request; its answer may depend on how many requests were sent
  before (a rate limit that lifts, a record that disappears).
\<close>

type_synonym server = "nat \<Rightarrow> request \<Rightarrow> fetched"

text \<open>
  The delay handed to \<^verbatim>\<open>setTimeout\<close>: milliseconds, \<^verbatim>\<open>NaN\<close>, or, for a retry count that is
  a text \<open>s\<close>, the engine's value of \<^verbatim>\<open>Math.min(1000 * Math.pow(2, s), 30000)\<close>.
\<close>

datatype delay = Ms int | NaNDelay | BackoffOfText string

record toast =
  toast_title :: string
  toast_description :: "string option"
  toast_variant :: string

record world =
  authToken :: "string option"
  sent :: "request list"
  timers :: "delay list"
  href :: "string option"
  navigated :: "string list"
  toasts :: "toast list"

text \<open>
  What the engine decides and the code does not: whether a text is below a number once
  converted (\<^verbatim>\<open>s < 3\<close>), whether a text, array or object is above zero once converted
  (\<^verbatim>\<open>v > 0\<close>), and the wording of the TypeError for reading property \<open>k\<close> of \<^verbatim>\<open>null\<close>.
\<close>

record engine =
  text_below_three :: "string \<Rightarrow> bool"
  above_zero :: "jsval \<Rightarrow> bool"
  null_read :: "string \<Rightarrow> string"

datatype error = Error (message: string)

definition API_BASE_URL :: string where
  "API_BASE_URL = ''https://api.bitechx.com''"

definition to_lower :: "char \<Rightarrow> char" where
  "to_lower c =
     (case map_of (zip ''ABCDEFGHIJKLMNOPQRSTUVWXYZ'' ''abcdefghijklmnopqrstuvwxyz'') c of
        None \<Rightarrow> c
      | Some l \<Rightarrow> l)"

text \<open>\<^verbatim>\<open>response.headers.get(name)\<close>: the lookup ignores the case of \<open>name\<close>.\<close>

definition headers_get :: "response \<Rightarrow> string \<Rightarrow> string option" where
  "headers_get r name = map_of (headers r) (map to_lower name)"

text \<open>\<^verbatim>\<open>response.ok\<close>.\<close>

definition ok :: "response \<Rightarrow> bool" where
  "ok r = (200 \<le> status r \<and> status r \<le> 299)"

definition fetch :: "server \<Rightarrow> request \<Rightarrow> world \<Rightarrow> fetched \<times> world" where
  "fetch srv req w = (srv (length (sent w)) req, w\<lparr> sent := sent w @ [req] \<rparr>)"

definition setTimeout :: "delay \<Rightarrow> world \<Rightarrow> world" where
  "setTimeout d w = w\<lparr> timers := timers w @ [d] \<rparr>"

text \<open>\<^verbatim>\<open>authService.logout()\<close>.\<close>

definition logout :: "world \<Rightarrow> world" where
  "logout w = w\<lparr> authToken := None \<rparr>"

section \<open>Remote API client (productService)\<close>

text \<open>
  \<^verbatim>\<open>getAuthHeaders\<close> reads the token from storage and throws when there is none; an empty
  text stored as the token is falsy and counts as none.
\<close>

definition getAuthHeaders :: "world \<Rightarrow> error + (string \<times> string) list" where
  "getAuthHeaders w =
     (case authToken w of
        None \<Rightarrow> Inl (Error ''No authentication token found'')
      | Some token \<Rightarrow>
          if token = [] then Inl (Error ''No authentication token found'')
          else Inr [(''Content-Type'', ''application/json''),
                    (''Authorization'', ''Bearer '' @ token)])"

subsection \<open>getProducts\<close>

text \<open>
  The fourth parameter of \<^verbatim>\<open>getProducts\<close> is declared a number, and \<^verbatim>\<open>getProduct\<close> passes
  its identifier there, a text. The three places that use the parameter are
  \<^verbatim>\<open>retryCount < MAX_RETRIES\<close>, \<^verbatim>\<open>Math.pow(2, retryCount)\<close> and \<^verbatim>\<open>retryCount + 1\<close>, which on
  a text appends the character 1.
\<close>

datatype retry_count = Count nat | Text string

definition MAX_RETRIES :: nat where
  "MAX_RETRIES = 3"

definition BASE_DELAY :: int where
  "BASE_DELAY = 1000"

fun below_max :: "engine \<Rightarrow> retry_count \<Rightarrow> bool" where
  "below_max js (Count n) = (n < MAX_RETRIES)"
| "below_max js (Text s) = text_below_three js s"

text \<open>\<^verbatim>\<open>Math.min(BASE_DELAY * Math.pow(2, retryCount), 30000)\<close>.\<close>

fun backoff :: "retry_count \<Rightarrow> delay" where
  "backoff (Count n) = Ms (min (BASE_DELAY * 2 ^ n) 30000)"
| "backoff (Text s) = BackoffOfText s"

fun next_count :: "retry_count \<Rightarrow> retry_count" where
  "next_count (Count n) = Count (n + 1)"
| "next_count (Text s) = Text (s @ ''1'')"

text \<open>\<^verbatim>\<open>parseInt(retryAfter, 10) * 1000\<close>.\<close>

definition retry_after_delay :: "string \<Rightarrow> delay" where
  "retry_after_delay retryAfter =
     (case parseInt retryAfter of None \<Rightarrow> NaNDelay | Some n \<Rightarrow> Ms (n * 1000))"

record ProductsPage =
  page_products :: jsval
  page_total :: jsval

definition products_request ::
  "int \<Rightarrow> int \<Rightarrow> string option \<Rightarrow> (string \<times> string) list \<Rightarrow> request" where
  "products_request offset limit categoryId hdrs =
     \<lparr> req_method = GET,
       req_url = API_BASE_URL @ ''/products'',
       req_query =
         [(''offset'', show_int offset), (''limit'', show_int limit)] @
         (case categoryId of
            None \<Rightarrow> []
          | Some c \<Rightarrow> if c = [] then [] else [(''categoryId'', c)]),
       req_headers = hdrs,
       req_body = NoBody \<rparr>"

text \<open>
  Lines 97 to 117: the shape of the body decides where the items and the total come from.
  Reading \<^verbatim>\<open>data.products\<close> of a \<^verbatim>\<open>null\<close> body throws.
\<close>

definition header_total :: "string option \<Rightarrow> jsval \<Rightarrow> jsval" where
  "header_total xTotalCount otherwise =
     (case xTotalCount of
        None \<Rightarrow> otherwise
      | Some t \<Rightarrow> if t = [] then otherwise else parseInt_val t)"

definition normalise :: "engine \<Rightarrow> string option \<Rightarrow> jsval \<Rightarrow> error + ProductsPage" where
  "normalise js xTotalCount data =
     (if isArray data then
        Inr \<lparr> page_products = data,
              page_total = header_total xTotalCount (js_length data) \<rparr>
      else if nullish data then Inl (Error (null_read js ''products''))
      else
        Inr \<lparr> page_products = js_or (js_or (property data ''products'') (property data ''data'')) (JArr []),
              page_total =
                js_or (js_or (property data ''total'') (property data ''totalCount''))
                  (header_total xTotalCount (JNum 0)) \<rparr>)"

text \<open>
  One pass through the \<^verbatim>\<open>try\<close> block. It returns a page, throws, or (on a 429 below the
  retry limit) waits and hands over to the next call; that call is returned without
  \<^verbatim>\<open>await\<close>, so what it throws is not caught by this call's \<^verbatim>\<open>catch\<close>. Reading the
  body of a failed response as a text, which the code does only to log it, is taken to
  succeed.
\<close>

datatype attempt = Returned ProductsPage | Retry delay | Thrown error

definition getProducts_try ::
  "engine \<Rightarrow> server \<Rightarrow> int \<Rightarrow> int \<Rightarrow> string option \<Rightarrow> retry_count \<Rightarrow> world
     \<Rightarrow> attempt \<times> world" where
  "getProducts_try js srv offset limit categoryId retryCount w =
     (case getAuthHeaders w of
        Inl e \<Rightarrow> (Thrown e, w)
      | Inr hdrs \<Rightarrow>
          (case fetch srv (products_request offset limit categoryId hdrs) w of
             (Rejected m, w1) \<Rightarrow> (Thrown (Error m), w1)
           | (Response r, w1) \<Rightarrow>
               if status r = 429 then
                 (if below_max js retryCount then
                    (Retry (case headers_get r ''Retry-After'' of
                              None \<Rightarrow> backoff retryCount
                            | Some retryAfter \<Rightarrow>
                                if retryAfter = [] then backoff retryCount
                                else retry_after_delay retryAfter), w1)
                  else (Thrown (Error ''Rate limit exceeded. Please try again later.''), w1))
               else if \<not> ok r then
                 (if status r = 401 then
                    (Thrown (Error ''Session expired. Please log in again.''),
                     (logout w1)\<lparr> href := Some ''/login'' \<rparr>)
                  else
                    (Thrown (Error (''Failed to fetch products: '' @ show_nat (status r) @ '' ''
                                      @ statusText r)), w1))
               else
                 (case body r of
                    NotJson m \<Rightarrow> (Thrown (Error m), w1)
                  | Json data \<Rightarrow>
                      (case normalise js (headers_get r ''x-total-count'') data of
                         Inl e \<Rightarrow> (Thrown e, w1)
                       | Inr page \<Rightarrow> (Returned page, w1)))))"

text \<open>
  The whole operation. \<open>None\<close> is a call that never settles: with a text as retry count
  nothing in the code bounds the number of retries.
\<close>

partial_function (option) getProducts ::
  "engine \<Rightarrow> server \<Rightarrow> int \<Rightarrow> int \<Rightarrow> string option \<Rightarrow> retry_count \<Rightarrow> world
     \<Rightarrow> ((error + ProductsPage) \<times> world) option" where
  "getProducts js srv offset limit categoryId retryCount w =
     (case getProducts_try js srv offset limit categoryId retryCount w of
        (Returned page, w1) \<Rightarrow> Some (Inr page, w1)
      | (Retry d, w1) \<Rightarrow>
          getProducts js srv offset limit categoryId (next_count retryCount) (setTimeout d w1)
      | (Thrown e, w1) \<Rightarrow>
          if below_max js retryCount \<and> \<not> includes_text (message e) ''Session expired'' then
            getProducts js srv offset limit categoryId (next_count retryCount)
              (setTimeout (backoff retryCount) w1)
          else Some (Inl e, w1))"

declare getProducts.simps [code]

subsection \<open>searchProducts\<close>

definition search_request :: "string \<Rightarrow> (string \<times> string) list \<Rightarrow> request" where
  "search_request query hdrs =
     \<lparr> req_method = GET,
       req_url = API_BASE_URL @ ''/products/search'',
       req_query = [(''searchedText'', query)],
       req_headers = hdrs,
       req_body = NoBody \<rparr>"

definition searchProducts :: "server \<Rightarrow> string \<Rightarrow> world \<Rightarrow> (error + jsval) \<times> world" where
  "searchProducts srv query w =
     (case getAuthHeaders w of
        Inl e \<Rightarrow> (Inl e, w)
      | Inr hdrs \<Rightarrow>
          (case fetch srv (search_request query hdrs) w of
             (Rejected m, w1) \<Rightarrow> (Inl (Error m), w1)
           | (Response r, w1) \<Rightarrow>
               if \<not> ok r then (Inl (Error ''Failed to search products''), w1)
               else (case body r of
                       NotJson m \<Rightarrow> (Inl (Error m), w1)
                     | Json results \<Rightarrow> (Inr results, w1))))"

subsection \<open>getProduct\<close>

definition product_request ::
  "http_method \<Rightarrow> string \<Rightarrow> (string \<times> string) list \<Rightarrow> sent_body \<Rightarrow> request" where
  "product_request method ident hdrs payload =
     \<lparr> req_method = method,
       req_url = API_BASE_URL @ ''/products/'' @ ident,
       req_query = [],
       req_headers = hdrs,
       req_body = payload \<rparr>"

text \<open>\<^verbatim>\<open>v > 0\<close>; a text, an array or an object is converted by the engine.\<close>

fun greater_than_zero :: "engine \<Rightarrow> jsval \<Rightarrow> bool" where
  "greater_than_zero js (JNum n) = (n > 0)"
| "greater_than_zero js JNaN = False"
| "greater_than_zero js JUndefined = False"
| "greater_than_zero js JNull = False"
| "greater_than_zero js (JBool b) = b"
| "greater_than_zero js v = above_zero js v"

text \<open>\<^verbatim>\<open>v[0]\<close> of a value that is not \<^verbatim>\<open>null\<close> or \<^verbatim>\<open>undefined\<close>.\<close>

fun element0 :: "jsval \<Rightarrow> jsval" where
  "element0 (JArr xs) = first_elem xs"
| "element0 (JStr s) = (case s of [] \<Rightarrow> JUndefined | c # cs \<Rightarrow> JStr [c])"
| "element0 (JObj kvs) = property (JObj kvs) ''0''"
| "element0 v = JUndefined"

text \<open>
  The direct fetch first. When its response is not a success, the list is queried with
  \<^verbatim>\<open>this.getProducts(0, 1, undefined, identifier)\<close>: offset 0, limit 1, no category, and
  the identifier in the place of the retry count. Every error leaves through the
  \<^verbatim>\<open>catch\<close>, which throws a new error with the same message.
\<close>

definition getProduct ::
  "engine \<Rightarrow> server \<Rightarrow> string \<Rightarrow> world \<Rightarrow> ((error + jsval) \<times> world) option" where
  "getProduct js srv ident w =
     (case getAuthHeaders w of
        Inl e \<Rightarrow> Some (Inl (Error (message e)), w)
      | Inr hdrs \<Rightarrow>
          (case fetch srv (product_request GET ident hdrs NoBody) w of
             (Rejected m, w1) \<Rightarrow> Some (Inl (Error m), w1)
           | (Response r, w1) \<Rightarrow>
               if ok r then
                 (case body r of
                    NotJson m \<Rightarrow> Some (Inl (Error m), w1)
                  | Json data \<Rightarrow>
                      Some (Inr (case data of JArr xs \<Rightarrow> first_elem xs | _ \<Rightarrow> data), w1))
               else
                 (case getProducts js srv 0 1 None (Text ident) w1 of
                    None \<Rightarrow> None
                  | Some (Inl e, w2) \<Rightarrow> Some (Inl (Error (message e)), w2)
                  | Some (Inr productsResponse, w2) \<Rightarrow>
                      if greater_than_zero js (js_length (page_products productsResponse))
                      then Some (Inr (element0 (page_products productsResponse)), w2)
                      else Some (Inl (Error ''Product not found''), w2))))"

subsection \<open>createProduct, updateProduct, deleteProduct\<close>

definition create_request :: "ProductFields \<Rightarrow> (string \<times> string) list \<Rightarrow> request" where
  "create_request productData hdrs =
     \<lparr> req_method = POST,
       req_url = API_BASE_URL @ ''/products'',
       req_query = [],
       req_headers = hdrs,
       req_body = FieldsBody productData \<rparr>"

definition createProduct ::
  "server \<Rightarrow> ProductFields \<Rightarrow> world \<Rightarrow> (error + jsval) \<times> world" where
  "createProduct srv productData w =
     (case getAuthHeaders w of
        Inl e \<Rightarrow> (Inl e, w)
      | Inr hdrs \<Rightarrow>
          (case fetch srv (create_request productData hdrs) w of
             (Rejected m, w1) \<Rightarrow> (Inl (Error m), w1)
           | (Response r, w1) \<Rightarrow>
               if \<not> ok r then (Inl (Error ''Failed to create product''), w1)
               else (case body r of
                       NotJson m \<Rightarrow> (Inl (Error m), w1)
                     | Json product \<Rightarrow> (Inr product, w1))))"

text \<open>
  \<^verbatim>\<open>const errorData = await response.json().catch(() => ({}));\<close>
  \<^verbatim>\<open>throw new Error(errorData.message || fallback);\<close>
  A body that is not JSON gives the empty object; a body that is \<^verbatim>\<open>null\<close> makes the read of
  \<^verbatim>\<open>message\<close> throw.
\<close>

definition server_error :: "engine \<Rightarrow> response \<Rightarrow> string \<Rightarrow> error" where
  "server_error js r fallback =
     (let errorData = (case body r of NotJson m \<Rightarrow> JObj [] | Json v \<Rightarrow> v)
      in if nullish errorData then Error (null_read js ''message'')
         else Error (toString (js_or (property errorData ''message'') (JStr fallback))))"

text \<open>The body sent by \<^verbatim>\<open>updateProduct\<close> has the name, description, price and category.\<close>

definition updateProduct ::
  "engine \<Rightarrow> server \<Rightarrow> string \<Rightarrow> ProductFields \<Rightarrow> world \<Rightarrow> (error + jsval) \<times> world" where
  "updateProduct js srv ident productData w =
     (case getAuthHeaders w of
        Inl e \<Rightarrow> (Inl e, w)
      | Inr hdrs \<Rightarrow>
          (case fetch srv
                  (product_request PUT ident hdrs
                     (FieldsBody (productData\<lparr> fields_images := None \<rparr>))) w of
             (Rejected m, w1) \<Rightarrow> (Inl (Error m), w1)
           | (Response r, w1) \<Rightarrow>
               if \<not> ok r then (Inl (server_error js r ''Failed to update product''), w1)
               else (case body r of
                       NotJson m \<Rightarrow> (Inl (Error m), w1)
                     | Json product \<Rightarrow> (Inr product, w1))))"

text \<open>\<^verbatim>\<open>deleteProduct\<close> returns \<^verbatim>\<open>{ id: result.id }\<close>; the model returns that \<^verbatim>\<open>id\<close>.\<close>

definition deleteProduct ::
  "engine \<Rightarrow> server \<Rightarrow> string \<Rightarrow> world \<Rightarrow> (error + jsval) \<times> world" where
  "deleteProduct js srv ident w =
     (case getAuthHeaders w of
        Inl e \<Rightarrow> (Inl (Error (message e)), w)
      | Inr hdrs \<Rightarrow>
          (case fetch srv (product_request DELETE ident hdrs NoBody) w of
             (Rejected m, w1) \<Rightarrow> (Inl (Error m), w1)
           | (Response r, w1) \<Rightarrow>
               if \<not> ok r then
                 (Inl (Error (message (server_error js r ''Failed to delete product''))), w1)
               else (case body r of
                       NotJson m \<Rightarrow> (Inl (Error m), w1)
                     | Json result \<Rightarrow>
                         if nullish result then (Inl (Error (null_read js ''id'')), w1)
                         else (Inr (property result ''id''), w1))))"

subsection \<open>getCategories\<close>

record CategoriesResult =
  result_categories :: jsval
  result_total :: jsval

text \<open>
  The URL is first the paginated one and is then replaced, when \<^verbatim>\<open>searchText\<close> is truthy,
  by the search URL.
\<close>

definition categories_request ::
  "string option \<Rightarrow> int \<Rightarrow> int \<Rightarrow> (string \<times> string) list \<Rightarrow> request" where
  "categories_request searchText offset limit hdrs =
     (let paged = \<lparr> req_method = GET,
                    req_url = API_BASE_URL @ ''/categories'',
                    req_query = [(''offset'', show_int offset), (''limit'', show_int limit)],
                    req_headers = hdrs,
                    req_body = NoBody \<rparr>
      in case searchText of
           None \<Rightarrow> paged
         | Some text \<Rightarrow>
             if text = [] then paged
             else paged\<lparr> req_url := API_BASE_URL @ ''/categories/search'',
                         req_query := [(''searchedText'', text)] \<rparr>)"

definition getCategories ::
  "engine \<Rightarrow> server \<Rightarrow> string option \<Rightarrow> int \<Rightarrow> int \<Rightarrow> world
     \<Rightarrow> (error + CategoriesResult) \<times> world" where
  "getCategories js srv searchText offset limit w =
     (case getAuthHeaders w of
        Inl e \<Rightarrow> (Inl e, w)
      | Inr hdrs \<Rightarrow>
          (case fetch srv (categories_request searchText offset limit hdrs) w of
             (Rejected m, w1) \<Rightarrow> (Inl (Error m), w1)
           | (Response r, w1) \<Rightarrow>
               if \<not> ok r then (Inl (Error ''Failed to fetch categories''), w1)
               else (case body r of
                       NotJson m \<Rightarrow> (Inl (Error m), w1)
                     | Json cats \<Rightarrow>
                         (case headers_get r ''x-total-count'' of
                            Some t \<Rightarrow>
                              if t \<noteq> [] then
                                (Inr \<lparr> result_categories = cats,
                                       result_total = parseInt_val t \<rparr>, w1)
                              else if nullish cats then (Inl (Error (null_read js ''length'')), w1)
                              else (Inr \<lparr> result_categories = cats,
                                          result_total = js_length cats \<rparr>, w1)
                          | None \<Rightarrow>
                              if nullish cats then (Inl (Error (null_read js ''length'')), w1)
                              else (Inr \<lparr> result_categories = cats,
                                          result_total = js_length cats \<rparr>, w1)))))"

section \<open>Session store (authService) and the login form\<close>

definition login_request :: "string \<Rightarrow> request" where
  "login_request email =
     \<lparr> req_method = POST,
       req_url = API_BASE_URL @ ''/auth'',
       req_query = [],
       req_headers = [(''Content-Type'', ''application/json'')],
       req_body = EmailBody email \<rparr>"

text \<open>
  \<^verbatim>\<open>authService.login\<close>: no check of the email; the token of the response is stored as a
  text, whatever it is.
\<close>

definition authService_login ::
  "engine \<Rightarrow> server \<Rightarrow> string \<Rightarrow> world \<Rightarrow> (error + jsval) \<times> world" where
  "authService_login js srv email w =
     (case fetch srv (login_request email) w of
        (Rejected m, w1) \<Rightarrow> (Inl (Error m), w1)
      | (Response r, w1) \<Rightarrow>
          if \<not> ok r then
            (case body r of
               NotJson m \<Rightarrow> (Inl (Error m), w1)
             | Json err \<Rightarrow>
                 if nullish err then (Inl (Error (null_read js ''message'')), w1)
                 else (Inl (Error (toString (js_or (property err ''message'')
                                               (JStr ''Failed to authenticate'')))), w1))
          else
            (case body r of
               NotJson m \<Rightarrow> (Inl (Error m), w1)
             | Json data \<Rightarrow>
                 if nullish data then (Inl (Error (null_read js ''token'')), w1)
                 else (Inr (property data ''token''),
                       w1\<lparr> authToken := Some (toString (property data ''token'')) \<rparr>)))"

text \<open>
  \<^verbatim>\<open>login\<close> of the \<^verbatim>\<open>useAuth\<close> hook: after a successful login it navigates to the product
  list. The hook's own \<^verbatim>\<open>user\<close> and \<^verbatim>\<open>loading\<close> flags belong to the view.
\<close>

definition useAuth_login ::
  "engine \<Rightarrow> server \<Rightarrow> string \<Rightarrow> world \<Rightarrow> (error + bool) \<times> world" where
  "useAuth_login js srv email w =
     (case authService_login js srv email w of
        (Inl e, w1) \<Rightarrow> (Inl e, w1)
      | (Inr token, w1) \<Rightarrow> (Inr True, w1\<lparr> navigated := navigated w1 @ [''/products''] \<rparr>))"

definition show_toast :: "toast \<Rightarrow> world \<Rightarrow> world" where
  "show_toast t w = w\<lparr> toasts := toasts w @ [t] \<rparr>"

text \<open>\<^verbatim>\<open>handleSubmit\<close> of the login form, on the email held by the form.\<close>

definition handleSubmit :: "engine \<Rightarrow> server \<Rightarrow> string \<Rightarrow> world \<Rightarrow> world" where
  "handleSubmit js srv email w =
     (if email = [] then
        show_toast \<lparr> toast_title = ''Error'',
                     toast_description = Some ''Please enter your email'',
                     toast_variant = ''destructive'' \<rparr> w
      else
        (case useAuth_login js srv email w of
           (Inr done, w1) \<Rightarrow>
             show_toast \<lparr> toast_title = ''Login successful!'',
                          toast_description = None,
                          toast_variant = ''default'' \<rparr> w1
         | (Inl e, w1) \<Rightarrow>
             show_toast \<lparr> toast_title = ''Error'',
                          toast_description = Some (message e),
                          toast_variant = ''destructive'' \<rparr> w1))"

subsection \<open>The e-mail field of the login form\<close>

text \<open>
  Modelled from the spec: the component \<^verbatim>\<open>Input\<close> (components/ui/input) that the form
  renders is not among the sources. The form writes
  \<^verbatim>\<open><Input type="email" value={email} onChange={(e) => setEmail(e.target.value)} required />\<close>
  inside \<^verbatim>\<open><form onSubmit={handleSubmit}>\<close>, with no \<^verbatim>\<open>noValidate\<close>, and the component is taken
  to hand these attributes to a native input element, which is what makes the rejection
  of a blank email happen on the client, as the spec says. The value of such an element
  is what was typed with the newlines removed and the white space at both ends stripped;
  the form is submitted, and \<^verbatim>\<open>handleSubmit\<close> called, only when the required field is
  not empty and holds a valid e-mail address: a name of letters, digits, dots and the
  signs of \<open>atext\<close>, the sign @, and a host of labels separated by dots.
\<close>

definition ascii_whitespace :: "char \<Rightarrow> bool" where
  "ascii_whitespace c = (of_char c \<in> {9, 10, 12, 13, 32 :: nat})"

definition strip_newlines :: "string \<Rightarrow> string" where
  "strip_newlines s = filter (\<lambda>c. of_char c \<notin> {10, 13 :: nat}) s"

definition strip_whitespace :: "string \<Rightarrow> string" where
  "strip_whitespace s = rev (dropWhile ascii_whitespace (rev (dropWhile ascii_whitespace s)))"

definition email_value :: "string \<Rightarrow> string" where
  "email_value typed = strip_whitespace (strip_newlines typed)"

definition is_alpha :: "char \<Rightarrow> bool" where
  "is_alpha c = (65 \<le> (of_char c :: nat) \<and> (of_char c :: nat) \<le> 90
                 \<or> 97 \<le> (of_char c :: nat) \<and> (of_char c :: nat) \<le> 122)"

definition let_dig :: "char \<Rightarrow> bool" where
  "let_dig c = (is_alpha c \<or> is_digit c)"

definition atext :: "char \<Rightarrow> bool" where
  "atext c = (let_dig c \<or> c \<in> set (CHR 0x27 # ''!#$%&*+-/=?^_`{|}~''))"

fun split_on :: "char \<Rightarrow> string \<Rightarrow> string list" where
  "split_on sep [] = [[]]"
| "split_on sep (c # cs) =
     (if c = sep then [] # split_on sep cs
      else (case split_on sep cs of [] \<Rightarrow> [[c]] | p # ps \<Rightarrow> (c # p) # ps))"

definition label_ok :: "string \<Rightarrow> bool" where
  "label_ok l = (l \<noteq> [] \<and> length l \<le> 63 \<and> let_dig (hd l) \<and> let_dig (last l)
                 \<and> list_all (\<lambda>c. let_dig c \<or> c = CHR ''-'') l)"

definition valid_email :: "string \<Rightarrow> bool" where
  "valid_email s =
     (let name_part = takeWhile (\<lambda>c. c \<noteq> CHR ''@'') s;
          rest = dropWhile (\<lambda>c. c \<noteq> CHR ''@'') s
      in name_part \<noteq> [] \<and> list_all (\<lambda>c. atext c \<or> c = CHR ''.'') name_part
         \<and> rest \<noteq> [] \<and> list_all label_ok (split_on (CHR ''.'') (tl rest)))"

text \<open>
  Typing a text into the field and submitting the form. A blocked submission changes
  nothing outside the page.
\<close>

definition submit_login_form :: "engine \<Rightarrow> server \<Rightarrow> string \<Rightarrow> world \<Rightarrow> world" where
  "submit_login_form js srv typed w =
     (let email = email_value typed
      in if email = [] then w
         else if \<not> valid_email email then w
         else handleSubmit js srv email w)"

section \<open>The fetchProducts thunk\<close>

text \<open>
  The thunk reads the page, the page size and the search text from the state. What
  \<^verbatim>\<open>getProducts\<close> returns is an object with the properties \<^verbatim>\<open>products\<close> and \<^verbatim>\<open>total\<close>; the
  thunk normalises it once more.
\<close>

definition page_object :: "ProductsPage \<Rightarrow> jsval" where
  "page_object page = JObj [(''products'', page_products page), (''total'', page_total page)]"

definition thunk_normalise :: "jsval \<Rightarrow> ProductsPage" where
  "thunk_normalise response =
     (if isArray response then
        \<lparr> page_products = response, page_total = js_length response \<rparr>
      else
        (let items = js_or (js_or (property response ''products'') (property response ''data''))
                       (JArr [])
         in \<lparr> page_products = items,
              page_total = js_or (js_or (property response ''total'')
                                        (property response ''totalCount''))
                             (js_length items) \<rparr>))"

definition fetchProducts ::
  "engine \<Rightarrow> server \<Rightarrow> ProductsState \<Rightarrow> world \<Rightarrow> ((error + ProductsPage) \<times> world) option" where
  "fetchProducts js srv state w =
     (let offset = (currentPage state - 1) * itemsPerPage state
      in if searchQuery state \<noteq> [] then
           (case searchProducts srv (searchQuery state) w of
              (Inl e, w1) \<Rightarrow> Some (Inl (Error (message e)), w1)
            | (Inr results, w1) \<Rightarrow>
                (let items = (if isArray results then results else JArr [])
                 in Some (Inr \<lparr> page_products = items, page_total = js_length items \<rparr>, w1)))
         else
           (case getProducts js srv offset (itemsPerPage state) None (Count 0) w of
              None \<Rightarrow> None
            | Some (Inl e, w1) \<Rightarrow> Some (Inl (Error (message e)), w1)
            | Some (Inr response, w1) \<Rightarrow>
                Some (Inr (thunk_normalise (page_object response)), w1)))"

section \<open>Example environments\<close>

text \<open>
  Worlds, servers and an engine on which the operations are evaluated below. The
  example engine is one whose texts are no numerals: such a text converts to \<^verbatim>\<open>NaN\<close>,
  which is neither below three nor above zero.
\<close>

abbreviation plain_engine :: engine where
  "plain_engine \<equiv>
     \<lparr> text_below_three = (\<lambda>s. False),
       above_zero = (\<lambda>v. False),
       null_read = (\<lambda>k. ''Cannot read properties of null (reading '' @ k @ '')'') \<rparr>"

abbreviation signed_in :: world where
  "signed_in \<equiv>
     \<lparr> authToken = Some ''t0k3n'', sent = [], timers = [], href = None,
       navigated = [], toasts = [] \<rparr>"

abbreviation signed_out :: world where
  "signed_out \<equiv>
     \<lparr> authToken = None, sent = [], timers = [], href = None, navigated = [], toasts = [] \<rparr>"

abbreviation bearer :: "(string \<times> string) list" where
  "bearer \<equiv> [(''Content-Type'', ''application/json''), (''Authorization'', ''Bearer t0k3n'')]"

abbreviation too_many_requests :: response where
  "too_many_requests \<equiv>
     \<lparr> status = 429, statusText = ''Too Many Requests'', headers = [],
       body = NotJson ''Unexpected end of JSON input'' \<rparr>"

abbreviation item :: "string \<Rightarrow> jsval" where
  "item i \<equiv> JObj [(''id'', JStr i), (''name'', JStr ''Lamp'')]"

abbreviation replies :: "jsval \<Rightarrow> server" where
  "replies v \<equiv> (\<lambda>n req. Response \<lparr> status = 200, statusText = ''OK'', headers = [],
                                       body = Json v \<rparr>)"

abbreviation unknown_id_server :: server where
  "unknown_id_server \<equiv>
     (\<lambda>n req.
        if req_url req = ''https://api.bitechx.com/products''
        then Response \<lparr> status = 200, statusText = ''OK'', headers = [],
                        body = Json (JArr (if req_query req = [(''offset'', ''0''), (''limit'', ''1'')]
                                           then [item ''xyz''] else [])) \<rparr>
        else Response \<lparr> status = 404, statusText = ''Not Found'', headers = [],
                        body = Json (JObj [(''message'', JStr ''Product not found'')]) \<rparr>)"

abbreviation refusing_server :: server where
  "refusing_server \<equiv>
     (\<lambda>n req. Response \<lparr> status = 400, statusText = ''Bad Request'', headers = [],
                          body = Json (JObj [(''message'', JStr ''Name already exists'')]) \<rparr>)"

abbreviation lamp_fields :: ProductFields where
  "lamp_fields \<equiv>
     \<lparr> fields_name = ''Lamp'', fields_description = Some ''Desk lamp'', fields_price = 10,
       fields_categoryId = ''c1'', fields_images = Some [] \<rparr>"

section \<open>Properties of the state container\<close>

subsection \<open>Pagination\<close>

lemma ceiling_bounds:
  fixes t p :: int
  assumes "0 < p"
  shows "t \<le> \<lceil>real_of_int t / real_of_int p\<rceil> * p"
    and "(\<lceil>real_of_int t / real_of_int p\<rceil> - 1) * p < t"
proof -
  define c where "c = \<lceil>real_of_int t / real_of_int p\<rceil>"
  have p: "0 < real_of_int p" using assms by simp
  have "real_of_int t / real_of_int p \<le> real_of_int c"
    unfolding c_def by (rule le_of_int_ceiling)
  then have "real_of_int t \<le> real_of_int c * real_of_int p"
    unfolding pos_divide_le_eq [OF p] .
  then have "real_of_int t \<le> real_of_int (c * p)" by simp
  then show "t \<le> \<lceil>real_of_int t / real_of_int p\<rceil> * p"
    unfolding c_def [symmetric] by (simp only: of_int_le_iff)
  have "real_of_int c - 1 < real_of_int t / real_of_int p"
    unfolding c_def by linarith
  then have "(real_of_int c - 1) * real_of_int p < real_of_int t"
    unfolding pos_less_divide_eq [OF p] .
  then have "real_of_int ((c - 1) * p) < real_of_int t" by simp
  then show "(\<lceil>real_of_int t / real_of_int p\<rceil> - 1) * p < t"
    unfolding c_def [symmetric] by (simp only: of_int_less_iff)
qed

text \<open>
  C9. For a page size \<open>p > 0\<close> and a total \<open>t \<ge> 0\<close> the number of pages is
  \<open>max 1 n\<close>, where \<open>n\<close> is the ceiling of \<open>t / p\<close>: the integer with
  \<open>(n - 1) * p < t \<le> n * p\<close>.
\<close>

theorem totalPages_is_ceiling:
  assumes "0 < p" and "0 \<le> t"
  shows "\<exists>n. totalPages t p = Pages (max 1 n) \<and> (n - 1) * p < t \<and> t \<le> n * p"
  using assms ceiling_bounds [of p t] by (auto simp: totalPages_def)

theorem totalPages_is_ceiling_witness:
  "(0::int) < 9 \<and> (0::int) \<le> 10 \<and>
   (\<exists>n. totalPages 10 9 = Pages (max 1 n) \<and> (n - 1) * 9 < 10 \<and> 10 \<le> n * 9)"
  using totalPages_is_ceiling [of 9 10] by simp

subsection \<open>Refreshing the product list\<close>

text \<open>
  C5. The pending action sets the loading flag. The fulfilled action clears it and replaces
  the items and the total by those of the payload. The rejected action clears it, records
  the error's message (the text \<^verbatim>\<open>Failed to fetch products\<close> when the message is missing
  or empty) and leaves the items and the total as they were.
\<close>

theorem fetchProducts_transitions:
  "loading (reducer s FetchProductsPending)
   \<and> loading (reducer s (FetchProductsFulfilled payload)) = False
   \<and> products (reducer s (FetchProductsFulfilled payload)) = response_products payload
   \<and> totalCount (reducer s (FetchProductsFulfilled payload)) = response_total payload
   \<and> loading (reducer s (FetchProductsRejected msg)) = False
   \<and> error (reducer s (FetchProductsRejected msg))
       = Some (message_or msg ''Failed to fetch products'')
   \<and> error (reducer s (FetchProductsRejected (Some (c # m)))) = Some (c # m)
   \<and> products (reducer s (FetchProductsRejected msg)) = products s
   \<and> totalCount (reducer s (FetchProductsRejected msg)) = totalCount s"
  by simp

lemma setSearchQuery_resets_page:
  "currentPage (reducer s (SetSearchQuery q)) = 1
   \<and> searchQuery (reducer s (SetSearchQuery q)) = q"
  by simp

subsection \<open>Removing a product\<close>

lemma length_filter_split:
  "length (filter (\<lambda>x. f x \<noteq> a) xs) + length (filter (\<lambda>x. f x = a) xs) = length xs"
  by (induction xs) auto

lemma filter_absent:
  "a \<notin> f ` set xs \<Longrightarrow> filter (\<lambda>x. f x \<noteq> a) xs = xs"
  by (induction xs) auto

text \<open>
  C3, as the claim states it, fails on the reducer. With the deleted identifier absent
  from the list the total still goes down, here from 2 to 1; and with two items carrying
  the deleted identifier the list loses both.
\<close>

theorem deleteProduct_fulfilled_counterexample:
  "''zz'' \<notin> product_id ` set (products two_products)
   \<and> totalCount two_products = 2
   \<and> totalCount (reducer two_products (DeleteProductFulfilled ''zz'')) = 1
   \<and> length (products twin_products) = 2
   \<and> length (products (reducer twin_products (DeleteProductFulfilled ''a''))) = 0"
  by (simp add: initialState_def)

text \<open>
  C3, amended. On a confirmed delete the reducer removes every item carrying the
  identifier: the list shrinks by the number of such items, by exactly 1 when there is
  exactly one, and is unchanged when there is none. The total becomes
  \<open>max 0 (total - 1)\<close> whether or not the identifier was in the list: it goes down by 1
  when it was positive, stays 0 when it was 0 (the only case in which it is unchanged),
  and is never negative.
\<close>

theorem deleteProduct_fulfilled_effect:
  "products (reducer s (DeleteProductFulfilled i))
     = filter (\<lambda>product. product_id product \<noteq> i) (products s)
   \<and> length (products (reducer s (DeleteProductFulfilled i)))
       + length (filter (\<lambda>product. product_id product = i) (products s))
     = length (products s)
   \<and> (length (filter (\<lambda>product. product_id product = i) (products s)) = 1
        \<longrightarrow> length (products (reducer s (DeleteProductFulfilled i))) + 1
              = length (products s))
   \<and> (i \<notin> product_id ` set (products s)
        \<longrightarrow> products (reducer s (DeleteProductFulfilled i)) = products s)
   \<and> totalCount (reducer s (DeleteProductFulfilled i)) = max 0 (totalCount s - 1)
   \<and> 0 \<le> totalCount (reducer s (DeleteProductFulfilled i))
   \<and> (0 < totalCount s
        \<longrightarrow> totalCount (reducer s (DeleteProductFulfilled i)) = totalCount s - 1)
   \<and> (totalCount s = 0 \<longrightarrow> totalCount (reducer s (DeleteProductFulfilled i)) = 0)
   \<and> (totalCount (reducer s (DeleteProductFulfilled i)) = totalCount s)
       = (totalCount s = 0)"
  using length_filter_split [of product_id i "products s"]
        filter_absent [of i product_id "products s"]
  by auto

theorem deleteProduct_fulfilled_effect_witness:
  "length (filter (\<lambda>product. product_id product = ''a'') (products two_products)) = 1
   \<and> length (products (reducer two_products (DeleteProductFulfilled ''a''))) + 1
       = length (products two_products)
   \<and> 0 < totalCount two_products
   \<and> totalCount (reducer two_products (DeleteProductFulfilled ''a'')) = 1
   \<and> ''zz'' \<notin> product_id ` set (products two_products)
   \<and> products (reducer two_products (DeleteProductFulfilled ''zz'')) = products two_products
   \<and> totalCount (reducer two_products (DeleteProductFulfilled ''zz'')) = 1
   \<and> totalCount initialState = 0
   \<and> ''zz'' \<notin> product_id ` set (products initialState)
   \<and> totalCount (reducer initialState (DeleteProductFulfilled ''zz'')) = 0"
  using deleteProduct_fulfilled_effect [of "two_products" "''a''"]
        deleteProduct_fulfilled_effect [of "two_products" "''zz''"]
        deleteProduct_fulfilled_effect [of "initialState" "''zz''"]
  by (simp add: initialState_def)

section \<open>Properties of the API client\<close>

lemma getAuthHeaders_update [simp]:
  "getAuthHeaders (w\<lparr> sent := s \<rparr>) = getAuthHeaders w"
  "getAuthHeaders (w\<lparr> timers := t \<rparr>) = getAuthHeaders w"
  by (simp_all add: getAuthHeaders_def)

lemma getAuthHeaders_none:
  "authToken w = None \<Longrightarrow> getAuthHeaders w = Inl (Error ''No authentication token found'')"
  by (simp add: getAuthHeaders_def)

lemma getAuthHeaders_empty:
  "authToken w = Some [] \<Longrightarrow> getAuthHeaders w = Inl (Error ''No authentication token found'')"
  by (simp add: getAuthHeaders_def)

lemma ok_not_429: "ok r \<Longrightarrow> status r \<noteq> 429"
  by (auto simp: ok_def)

subsection \<open>Rate limiting\<close>

lemma getProducts_try_429:
  assumes "getAuthHeaders w = Inr hdrs"
    and "srv (length (sent w)) (products_request offset limit cat hdrs) = Response r"
    and "status r = 429"
    and "headers_get r ''Retry-After'' = None"
  shows "getProducts_try js srv offset limit cat rc w =
           (if below_max js rc then Retry (backoff rc)
            else Thrown (Error ''Rate limit exceeded. Please try again later.''),
            w\<lparr> sent := sent w @ [products_request offset limit cat hdrs] \<rparr>)"
  using assms by (simp add: getProducts_try_def fetch_def)

lemma getProducts_429_retry:
  assumes "getAuthHeaders w = Inr hdrs"
    and "srv (length (sent w)) (products_request offset limit cat hdrs) = Response r"
    and "status r = 429"
    and "headers_get r ''Retry-After'' = None"
    and "n < 3"
  shows "getProducts js srv offset limit cat (Count n) w =
         getProducts js srv offset limit cat (Count (Suc n))
           (w\<lparr> sent := sent w @ [products_request offset limit cat hdrs],
               timers := timers w @ [Ms (min (1000 * 2 ^ n) 30000)] \<rparr>)"
  using assms
  by (subst getProducts.simps)
     (simp add: getProducts_try_429 MAX_RETRIES_def BASE_DELAY_def setTimeout_def)

lemma getProducts_429_exhausted:
  assumes "getAuthHeaders w = Inr hdrs"
    and "srv (length (sent w)) (products_request offset limit cat hdrs) = Response r"
    and "status r = 429"
    and "headers_get r ''Retry-After'' = None"
    and "3 \<le> n"
  shows "getProducts js srv offset limit cat (Count n) w =
         Some (Inl (Error ''Rate limit exceeded. Please try again later.''),
               w\<lparr> sent := sent w @ [products_request offset limit cat hdrs] \<rparr>)"
  using assms
  by (subst getProducts.simps)
     (simp add: getProducts_try_429 MAX_RETRIES_def)

text \<open>
  C1. With a token in storage and the server answering the first four requests of
  \<^verbatim>\<open>getProducts\<close> with status 429 and no \<^verbatim>\<open>Retry-After\<close> header, the call started with
  retry count 0 waits 1000, 2000 and 4000 milliseconds, sends four requests in all (the
  first and three retries) and then fails with the rate-limit error.
\<close>

theorem getProducts_four_429:
  assumes tok: "getAuthHeaders w = Inr hdrs"
    and resp: "\<And>k. k < 4 \<Longrightarrow>
                 srv (length (sent w) + k) (products_request offset limit cat hdrs)
                   = Response (r k)"
    and limited: "\<And>k. k < 4 \<Longrightarrow> status (r k) = 429"
    and bare: "\<And>k. k < 4 \<Longrightarrow> headers_get (r k) ''Retry-After'' = None"
  shows "getProducts js srv offset limit cat (Count 0) w =
           Some (Inl (Error ''Rate limit exceeded. Please try again later.''),
                 w\<lparr> sent := sent w @ replicate 4 (products_request offset limit cat hdrs),
                     timers := timers w @ [Ms 1000, Ms 2000, Ms 4000] \<rparr>)"
proof -
  let ?req = "products_request offset limit cat hdrs"
  have a: "srv (length (sent w)) ?req = Response (r 0)" "status (r 0) = 429"
      "headers_get (r 0) ''Retry-After'' = None"
    using resp [of 0] limited [of 0] bare [of 0] by simp_all
  have b: "srv (length (sent w) + 1) ?req = Response (r 1)" "status (r 1) = 429"
      "headers_get (r 1) ''Retry-After'' = None"
    using resp [of 1] limited [of 1] bare [of 1] by simp_all
  have c: "srv (length (sent w) + 2) ?req = Response (r 2)" "status (r 2) = 429"
      "headers_get (r 2) ''Retry-After'' = None"
    using resp [of 2] limited [of 2] bare [of 2] by simp_all
  have d: "srv (length (sent w) + 3) ?req = Response (r 3)" "status (r 3) = 429"
      "headers_get (r 3) ''Retry-After'' = None"
    using resp [of 3] limited [of 3] bare [of 3] by simp_all
  let ?w1 = "w\<lparr> sent := sent w @ [?req],
                 timers := timers w @ [Ms (min (1000 * 2 ^ 0) 30000)] \<rparr>"
  let ?w2 = "?w1\<lparr> sent := sent ?w1 @ [?req],
                   timers := timers ?w1 @ [Ms (min (1000 * 2 ^ 1) 30000)] \<rparr>"
  let ?w3 = "?w2\<lparr> sent := sent ?w2 @ [?req],
                   timers := timers ?w2 @ [Ms (min (1000 * 2 ^ 2) 30000)] \<rparr>"
  have s0: "getProducts js srv offset limit cat (Count 0) w
            = getProducts js srv offset limit cat (Count 1) ?w1"
    using getProducts_429_retry [of w hdrs srv offset limit cat "r 0" 0 js] tok a by simp
  have s1: "getProducts js srv offset limit cat (Count 1) ?w1
            = getProducts js srv offset limit cat (Count 2) ?w2"
    using getProducts_429_retry [of ?w1 hdrs srv offset limit cat "r 1" 1 js] tok b
    by (simp add: eval_nat_numeral)
  have s2: "getProducts js srv offset limit cat (Count 2) ?w2
            = getProducts js srv offset limit cat (Count 3) ?w3"
    using getProducts_429_retry [of ?w2 hdrs srv offset limit cat "r 2" 2 js] tok c
    by (simp add: eval_nat_numeral)
  have s3: "getProducts js srv offset limit cat (Count 3) ?w3 =
      Some (Inl (Error ''Rate limit exceeded. Please try again later.''),
            ?w3\<lparr> sent := sent ?w3 @ [?req] \<rparr>)"
    using getProducts_429_exhausted [of ?w3 hdrs srv offset limit cat "r 3" 3 js] tok d
    by (simp add: eval_nat_numeral)
  show ?thesis
    unfolding s0 s1 s2 s3 by (simp add: eval_nat_numeral)
qed

theorem getProducts_four_429_witness:
  "getAuthHeaders signed_in = Inr bearer
   \<and> status too_many_requests = 429
   \<and> headers_get too_many_requests ''Retry-After'' = None
   \<and> getProducts plain_engine (\<lambda>n req. Response too_many_requests) 0 9 None (Count 0) signed_in
       = Some (Inl (Error ''Rate limit exceeded. Please try again later.''),
               signed_in\<lparr> sent := replicate 4 (products_request 0 9 None bearer),
                           timers := [Ms 1000, Ms 2000, Ms 4000] \<rparr>)"
  using getProducts_four_429
          [of signed_in bearer "\<lambda>n req. Response too_many_requests" 0 9 None
              "\<lambda>k. too_many_requests" plain_engine]
  by (simp add: getAuthHeaders_def headers_get_def)

text \<open>
  A retry count that is a text is not bounded by the code. When the engine keeps the text,
  with any number of characters 1 appended, below three (the text \<^verbatim>\<open>-1\<close> is one: it
  becomes \<^verbatim>\<open>-11\<close>, \<^verbatim>\<open>-111\<close>, and so on) and the server keeps answering 429, the call
  never settles.
\<close>

lemma getProducts_try_text_429:
  assumes "text_below_three js s"
    and "\<forall>n req. \<exists>r. srv n req = Response r \<and> status r = 429"
    and "getAuthHeaders w = Inr hdrs"
  shows "\<exists>d. getProducts_try js srv offset limit cat (Text s) w
           = (Retry d, w\<lparr> sent := sent w @ [products_request offset limit cat hdrs] \<rparr>)"
proof -
  obtain r where "srv (length (sent w)) (products_request offset limit cat hdrs) = Response r"
    and "status r = 429"
    using assms(2) by blast
  then show ?thesis
    using assms(1,3) by (simp add: getProducts_try_def fetch_def)
qed

lemma getProducts_text_settles_not:
  assumes "getProducts js srv offset limit cat rc w = Some y"
  shows "(\<forall>k. text_below_three js (s @ replicate k (CHR ''1''))) \<longrightarrow>
         (\<forall>n req. \<exists>r. srv n req = Response r \<and> status r = 429) \<longrightarrow>
         (\<exists>hdrs. getAuthHeaders w = Inr hdrs) \<longrightarrow>
         (\<exists>k. rc = Text (s @ replicate k (CHR ''1''))) \<longrightarrow> False"
  using assms
proof (induction rule: getProducts.raw_induct [rotated 1, consumes 1, case_names call])
  case (call getProducts' js srv offset limit cat rc w y)
  show ?case
  proof (intro impI)
    assume below: "\<forall>k. text_below_three js (s @ replicate k (CHR ''1''))"
      and limited: "\<forall>n req. \<exists>r. srv n req = Response r \<and> status r = 429"
      and token: "\<exists>hdrs. getAuthHeaders w = Inr hdrs"
      and count: "\<exists>k. rc = Text (s @ replicate k (CHR ''1''))"
    from token obtain hdrs where hdrs: "getAuthHeaders w = Inr hdrs" by blast
    from count obtain k where k: "rc = Text (s @ replicate k (CHR ''1''))" by blast
    from below have "text_below_three js (s @ replicate k (CHR ''1''))" by blast
    from getProducts_try_text_429 [OF this limited hdrs, of offset limit cat]
    obtain d where attempt:
      "getProducts_try js srv offset limit cat (Text (s @ replicate k (CHR ''1''))) w
         = (Retry d, w\<lparr> sent := sent w @ [products_request offset limit cat hdrs] \<rparr>)"
      by blast
    let ?w' = "setTimeout d (w\<lparr> sent := sent w @ [products_request offset limit cat hdrs] \<rparr>)"
    from call(2) have next_call:
      "getProducts' js srv offset limit cat (Text (s @ replicate (Suc k) (CHR ''1''))) ?w' = Some y"
      using attempt k by (simp add: replicate_append_same)
    have "\<exists>hdrs. getAuthHeaders ?w' = Inr hdrs"
      using hdrs by (simp add: setTimeout_def)
    with call(1) [OF next_call] below limited show False
      by blast
  qed
qed

lemma getProducts_text_never_settles:
  assumes "\<forall>k. text_below_three js (s @ replicate k (CHR ''1''))"
    and "\<forall>n req. \<exists>r. srv n req = Response r \<and> status r = 429"
    and "getAuthHeaders w = Inr hdrs"
  shows "getProducts js srv offset limit cat (Text s) w = None"
proof (cases "getProducts js srv offset limit cat (Text s) w")
  case None
  then show ?thesis .
next
  case (Some y)
  have "\<exists>k. Text s = Text (s @ replicate k (CHR ''1''))"
    by (rule exI [of _ 0]) simp
  with getProducts_text_settles_not [OF Some, of s] assms show ?thesis by blast
qed

subsection \<open>Response shapes\<close>

lemma getProducts_success:
  assumes "getAuthHeaders w = Inr hdrs"
    and "srv (length (sent w)) (products_request offset limit cat hdrs) = Response r"
    and "ok r"
    and "body r = Json data"
    and "normalise js (headers_get r ''x-total-count'') data = Inr page"
  shows "getProducts js srv offset limit cat rc w =
           Some (Inr page, w\<lparr> sent := sent w @ [products_request offset limit cat hdrs] \<rparr>)"
  using assms
  by (subst getProducts.simps) (simp add: getProducts_try_def fetch_def ok_not_429)

lemma thunk_normalise_keeps:
  "truthy t \<Longrightarrow>
   thunk_normalise (page_object \<lparr> page_products = JArr items, page_total = t \<rparr>)
     = \<lparr> page_products = JArr items, page_total = t \<rparr>"
  by (simp add: thunk_normalise_def page_object_def js_or_def)

lemma fetchProducts_passes_page:
  assumes "searchQuery state = []"
    and "getProducts js srv ((currentPage state - 1) * itemsPerPage state) (itemsPerPage state)
           None (Count 0) w
         = Some (Inr \<lparr> page_products = JArr items, page_total = t \<rparr>, w')"
    and "truthy t"
  shows "fetchProducts js srv state w
         = Some (Inr \<lparr> page_products = JArr items, page_total = t \<rparr>, w')"
  using assms by (simp add: fetchProducts_def thunk_normalise_keeps)

text \<open>
  C4. On a successful response to the list request, whatever the retry count: a body that
  is a bare array of 5 items, with no \<^verbatim>\<open>x-total-count\<close> header, gives those items and the
  total 5; a body that is the object with the items under \<^verbatim>\<open>data\<close> and 30 under
  \<^verbatim>\<open>totalCount\<close> gives those items and the total 30.
\<close>

theorem getProducts_normalises:
  assumes "getAuthHeaders w = Inr hdrs"
    and "srv (length (sent w)) (products_request offset limit cat hdrs) = Response r"
    and "ok r"
  shows "(body r = Json (JArr items) \<and> length items = 5
            \<and> headers_get r ''x-total-count'' = None
          \<longrightarrow> getProducts js srv offset limit cat rc w
                = Some (Inr \<lparr> page_products = JArr items, page_total = JNum 5 \<rparr>,
                        w\<lparr> sent := sent w @ [products_request offset limit cat hdrs] \<rparr>))
       \<and> (body r = Json (JObj [(''data'', JArr items), (''totalCount'', JNum 30)])
          \<longrightarrow> getProducts js srv offset limit cat rc w
                = Some (Inr \<lparr> page_products = JArr items, page_total = JNum 30 \<rparr>,
                        w\<lparr> sent := sent w @ [products_request offset limit cat hdrs] \<rparr>))"
proof (intro conjI impI)
  assume a: "body r = Json (JArr items) \<and> length items = 5
               \<and> headers_get r ''x-total-count'' = None"
  then have "normalise js (headers_get r ''x-total-count'') (JArr items)
             = Inr \<lparr> page_products = JArr items, page_total = JNum 5 \<rparr>"
    by (simp add: normalise_def header_total_def)
  with a assms show "getProducts js srv offset limit cat rc w
                = Some (Inr \<lparr> page_products = JArr items, page_total = JNum 5 \<rparr>,
                        w\<lparr> sent := sent w @ [products_request offset limit cat hdrs] \<rparr>)"
    using getProducts_success [of w hdrs srv offset limit cat r "JArr items" js] by simp
next
  assume b: "body r = Json (JObj [(''data'', JArr items), (''totalCount'', JNum 30)])"
  have "normalise js (headers_get r ''x-total-count'')
           (JObj [(''data'', JArr items), (''totalCount'', JNum 30)])
        = Inr \<lparr> page_products = JArr items, page_total = JNum 30 \<rparr>"
    by (simp add: normalise_def js_or_def)
  with b assms show "getProducts js srv offset limit cat rc w
                = Some (Inr \<lparr> page_products = JArr items, page_total = JNum 30 \<rparr>,
                        w\<lparr> sent := sent w @ [products_request offset limit cat hdrs] \<rparr>)"
    using getProducts_success [of w hdrs srv offset limit cat r
             "JObj [(''data'', JArr items), (''totalCount'', JNum 30)]" js] by simp
qed

theorem getProducts_normalises_witness:
  "getAuthHeaders signed_in = Inr bearer
   \<and> ok \<lparr> status = 200, statusText = ''OK'', headers = [],
           body = Json (JArr [item ''1'', item ''2'', item ''3'', item ''4'', item ''5'']) \<rparr>
   \<and> length [item ''1'', item ''2'', item ''3'', item ''4'', item ''5''] = 5
   \<and> getProducts plain_engine
         (replies (JArr [item ''1'', item ''2'', item ''3'', item ''4'', item ''5'']))
         0 9 None (Count 0) signed_in
       = Some (Inr \<lparr> page_products =
                       JArr [item ''1'', item ''2'', item ''3'', item ''4'', item ''5''],
                     page_total = JNum 5 \<rparr>,
               signed_in\<lparr> sent := [products_request 0 9 None bearer] \<rparr>)
   \<and> getProducts plain_engine
         (replies (JObj [(''data'', JArr [item ''1'', item ''2'', item ''3'']),
                         (''totalCount'', JNum 30)]))
         0 9 None (Count 0) signed_in
       = Some (Inr \<lparr> page_products = JArr [item ''1'', item ''2'', item ''3''],
                     page_total = JNum 30 \<rparr>,
               signed_in\<lparr> sent := [products_request 0 9 None bearer] \<rparr>)"
  using getProducts_normalises
          [of signed_in bearer
              "replies (JArr [item ''1'', item ''2'', item ''3'', item ''4'', item ''5''])"
              0 9 None
              "\<lparr> status = 200, statusText = ''OK'', headers = [],
                 body = Json (JArr [item ''1'', item ''2'', item ''3'', item ''4'', item ''5'']) \<rparr>"
              "[item ''1'', item ''2'', item ''3'', item ''4'', item ''5'']"
              plain_engine "Count 0"]
        getProducts_normalises
          [of signed_in bearer
              "replies (JObj [(''data'', JArr [item ''1'', item ''2'', item ''3'']),
                              (''totalCount'', JNum 30)])"
              0 9 None
              "\<lparr> status = 200, statusText = ''OK'', headers = [],
                 body = Json (JObj [(''data'', JArr [item ''1'', item ''2'', item ''3'']),
                                    (''totalCount'', JNum 30)]) \<rparr>"
              "[item ''1'', item ''2'', item ''3'']"
              plain_engine "Count 0"]
  by (simp add: getAuthHeaders_def ok_def headers_get_def)

subsection \<open>Calls without a token\<close>

lemma getProducts_no_token_retry:
  assumes "authToken w = None" and "n < 3"
  shows "getProducts js srv offset limit cat (Count n) w =
         getProducts js srv offset limit cat (Count (Suc n))
           (w\<lparr> timers := timers w @ [Ms (min (1000 * 2 ^ n) 30000)] \<rparr>)"
  using assms
  by (subst getProducts.simps)
     (simp add: getProducts_try_def getAuthHeaders_none MAX_RETRIES_def BASE_DELAY_def
        setTimeout_def)

lemma getProducts_no_token_exhausted:
  assumes "authToken w = None" and "3 \<le> n"
  shows "getProducts js srv offset limit cat (Count n) w =
         Some (Inl (Error ''No authentication token found''), w)"
  using assms
  by (subst getProducts.simps)
     (simp add: getProducts_try_def getAuthHeaders_none MAX_RETRIES_def)

lemma getProducts_no_token:
  assumes "authToken w = None"
  shows "getProducts js srv offset limit cat (Count 0) w =
           Some (Inl (Error ''No authentication token found''),
                 w\<lparr> timers := timers w @ [Ms 1000, Ms 2000, Ms 4000] \<rparr>)"
proof -
  let ?w1 = "w\<lparr> timers := timers w @ [Ms (min (1000 * 2 ^ 0) 30000)] \<rparr>"
  let ?w2 = "?w1\<lparr> timers := timers ?w1 @ [Ms (min (1000 * 2 ^ 1) 30000)] \<rparr>"
  let ?w3 = "?w2\<lparr> timers := timers ?w2 @ [Ms (min (1000 * 2 ^ 2) 30000)] \<rparr>"
  have s0: "getProducts js srv offset limit cat (Count 0) w
            = getProducts js srv offset limit cat (Count 1) ?w1"
    using getProducts_no_token_retry [of w 0 js srv offset limit cat] assms by simp
  have s1: "getProducts js srv offset limit cat (Count 1) ?w1
            = getProducts js srv offset limit cat (Count 2) ?w2"
    using getProducts_no_token_retry [of ?w1 1 js srv offset limit cat] assms
    by (simp add: eval_nat_numeral)
  have s2: "getProducts js srv offset limit cat (Count 2) ?w2
            = getProducts js srv offset limit cat (Count 3) ?w3"
    using getProducts_no_token_retry [of ?w2 2 js srv offset limit cat] assms
    by (simp add: eval_nat_numeral)
  have s3: "getProducts js srv offset limit cat (Count 3) ?w3
            = Some (Inl (Error ''No authentication token found''), ?w3)"
    using getProducts_no_token_exhausted [of ?w3 3 js srv offset limit cat] assms by simp
  show ?thesis unfolding s0 s1 s2 s3 by simp
qed

text \<open>
  C6. With no token in storage every operation of the client fails with the error
  \<^verbatim>\<open>No authentication token found\<close> and the log of sent requests is as it was: six of
  them leave the world untouched, and \<^verbatim>\<open>getProducts\<close>, whose \<^verbatim>\<open>catch\<close> retries this error
  as any other, only adds its three backoff delays before it fails.
\<close>

theorem no_token_no_network_call:
  assumes "authToken w = None"
  shows "getProducts js srv offset limit cat (Count 0) w
           = Some (Inl (Error ''No authentication token found''),
                   w\<lparr> timers := timers w @ [Ms 1000, Ms 2000, Ms 4000] \<rparr>)
       \<and> searchProducts srv query w = (Inl (Error ''No authentication token found''), w)
       \<and> getProduct js srv ident w = Some (Inl (Error ''No authentication token found''), w)
       \<and> createProduct srv productData w = (Inl (Error ''No authentication token found''), w)
       \<and> updateProduct js srv ident productData w
           = (Inl (Error ''No authentication token found''), w)
       \<and> deleteProduct js srv ident w = (Inl (Error ''No authentication token found''), w)
       \<and> getCategories js srv searchText offset' limit' w
           = (Inl (Error ''No authentication token found''), w)"
  using getProducts_no_token [OF assms] getAuthHeaders_none [OF assms]
  by (simp add: searchProducts_def getProduct_def createProduct_def updateProduct_def
        deleteProduct_def getCategories_def)

theorem no_token_no_network_call_witness:
  "authToken signed_out = None
   \<and> sent signed_out = []
   \<and> getProducts plain_engine (replies (JArr [])) 0 9 None (Count 0) signed_out
       = Some (Inl (Error ''No authentication token found''),
               signed_out\<lparr> timers := [Ms 1000, Ms 2000, Ms 4000] \<rparr>)
   \<and> getCategories plain_engine (replies (JArr [])) None 0 10 signed_out
       = (Inl (Error ''No authentication token found''), signed_out)"
  using no_token_no_network_call [of signed_out plain_engine "replies (JArr [])" 0 9 None]
  by simp

subsection \<open>Looking up one product\<close>

text \<open>
  What the fallback does, for every identifier: the list request it sends is the same,
  and its first item is returned; with an empty list the call fails with the not-found
  error.
\<close>

lemma getProduct_fallback_first_item:
  assumes "getAuthHeaders w = Inr hdrs"
    and "srv (length (sent w)) (product_request GET ident hdrs NoBody) = Response r"
    and "\<not> ok r"
    and "srv (Suc (length (sent w))) (products_request 0 1 None hdrs) = Response r'"
    and "ok r'"
    and "body r' = Json (JArr (x # xs))"
  shows "getProduct js srv ident w =
           Some (Inr x, w\<lparr> sent := sent w @ [product_request GET ident hdrs NoBody,
                                             products_request 0 1 None hdrs] \<rparr>)"
proof -
  let ?w1 = "w\<lparr> sent := sent w @ [product_request GET ident hdrs NoBody] \<rparr>"
  have page: "normalise js (headers_get r' ''x-total-count'') (JArr (x # xs))
      = Inr \<lparr> page_products = JArr (x # xs),
              page_total = header_total (headers_get r' ''x-total-count'')
                             (JNum (int (length (x # xs)))) \<rparr>"
    by (simp add: normalise_def)
  have "getProducts js srv 0 1 None (Text ident) ?w1 =
          Some (Inr \<lparr> page_products = JArr (x # xs),
                      page_total = header_total (headers_get r' ''x-total-count'')
                                     (JNum (int (length (x # xs)))) \<rparr>,
                ?w1\<lparr> sent := sent ?w1 @ [products_request 0 1 None hdrs] \<rparr>)"
    using getProducts_success [of ?w1 hdrs srv 0 1 None r' "JArr (x # xs)" js _ "Text ident"]
          assms page
    by simp
  then show ?thesis
    using assms by (simp add: getProduct_def fetch_def)
qed

lemma getProduct_fallback_not_found:
  assumes "getAuthHeaders w = Inr hdrs"
    and "srv (length (sent w)) (product_request GET ident hdrs NoBody) = Response r"
    and "\<not> ok r"
    and "srv (Suc (length (sent w))) (products_request 0 1 None hdrs) = Response r'"
    and "ok r'"
    and "body r' = Json (JArr [])"
  shows "getProduct js srv ident w =
           Some (Inl (Error ''Product not found''),
                 w\<lparr> sent := sent w @ [product_request GET ident hdrs NoBody,
                                      products_request 0 1 None hdrs] \<rparr>)"
proof -
  let ?w1 = "w\<lparr> sent := sent w @ [product_request GET ident hdrs NoBody] \<rparr>"
  have page: "normalise js (headers_get r' ''x-total-count'') (JArr [])
      = Inr \<lparr> page_products = JArr [],
              page_total = header_total (headers_get r' ''x-total-count'') (JNum 0) \<rparr>"
    by (simp add: normalise_def)
  have "getProducts js srv 0 1 None (Text ident) ?w1 =
          Some (Inr \<lparr> page_products = JArr [],
                      page_total = header_total (headers_get r' ''x-total-count'') (JNum 0) \<rparr>,
                ?w1\<lparr> sent := sent ?w1 @ [products_request 0 1 None hdrs] \<rparr>)"
    using getProducts_success [of ?w1 hdrs srv 0 1 None r' "JArr []" js _ "Text ident"]
          assms page
    by simp
  then show ?thesis
    using assms by (simp add: getProduct_def fetch_def)
qed

text \<open>
  C2, evaluated. A server that knows no product \<^verbatim>\<open>abc\<close> (the direct request is answered
  with 404) and whose list starts with the product \<^verbatim>\<open>xyz\<close>. The second request of
  \<^verbatim>\<open>getProduct\<close> is the list request with offset 0 and limit 1 and carries no identifier:
  the identifier went into the retry count. The call returns the product \<^verbatim>\<open>xyz\<close>.
\<close>

theorem getProduct_fallback_unfiltered:
  "getProduct plain_engine unknown_id_server ''abc'' signed_in
     = Some (Inr (item ''xyz''),
             signed_in\<lparr> sent := [product_request GET ''abc'' bearer NoBody,
                                  products_request 0 1 None bearer] \<rparr>)
   \<and> req_query (products_request 0 1 None bearer) = [(''offset'', ''0''), (''limit'', ''1'')]
   \<and> property (item ''xyz'') ''id'' = JStr ''xyz''"
  apply (simp add: getProduct_def getAuthHeaders_def fetch_def product_request_def
      API_BASE_URL_def ok_def)
  apply (subst getProducts.simps)
  apply (simp add: getProducts_try_def getAuthHeaders_def fetch_def products_request_def
      API_BASE_URL_def ok_def show_int_def digit_char_def normalise_def header_total_def
      headers_get_def)
  done

subsection \<open>Errors of create and update\<close>

lemma server_error_not_json:
  "body r = NotJson m \<Longrightarrow> server_error js r fallback = Error fallback"
  by (simp add: server_error_def js_or_def)

lemma server_error_message:
  "body r = Json (JObj kvs) \<Longrightarrow> map_of kvs ''message'' = Some (JStr m) \<Longrightarrow> m \<noteq> [] \<Longrightarrow>
     server_error js r fallback = Error m"
  by (simp add: server_error_def js_or_def)

lemma server_error_null:
  "body r = Json JNull \<Longrightarrow> server_error js r fallback = Error (null_read js ''message'')"
  by (simp add: server_error_def)

lemma updateProduct_failure:
  assumes "getAuthHeaders w = Inr hdrs"
    and "srv (length (sent w))
           (product_request PUT ident hdrs (FieldsBody (productData\<lparr> fields_images := None \<rparr>)))
         = Response r"
    and "\<not> ok r"
  shows "fst (updateProduct js srv ident productData w)
           = Inl (server_error js r ''Failed to update product'')"
  using assms by (simp add: updateProduct_def fetch_def)

lemma createProduct_failure:
  assumes "getAuthHeaders w = Inr hdrs"
    and "srv (length (sent w)) (create_request productData hdrs) = Response r"
    and "\<not> ok r"
  shows "fst (createProduct srv productData w) = Inl (Error ''Failed to create product'')"
  using assms by (simp add: createProduct_def fetch_def)

text \<open>
  C7, evaluated. The server refuses with status 400 and the message
  \<^verbatim>\<open>Name already exists\<close> in the body. \<^verbatim>\<open>updateProduct\<close> fails with that message;
  \<^verbatim>\<open>createProduct\<close> fails with its fixed text and never reads the body.
\<close>

theorem createProduct_hides_server_message:
  "createProduct refusing_server lamp_fields signed_in
     = (Inl (Error ''Failed to create product''),
        signed_in\<lparr> sent := [create_request lamp_fields bearer] \<rparr>)
   \<and> updateProduct plain_engine refusing_server ''a'' lamp_fields signed_in
     = (Inl (Error ''Name already exists''),
        signed_in\<lparr> sent := [product_request PUT ''a'' bearer
                               (FieldsBody (lamp_fields\<lparr> fields_images := None \<rparr>))] \<rparr>)"
  by (simp add: createProduct_def updateProduct_def getAuthHeaders_def fetch_def ok_def
      server_error_def js_or_def)

subsection \<open>Categories\<close>

text \<open>
  C10. With a non-empty search text the request of \<^verbatim>\<open>getCategories\<close> goes to the search
  endpoint with the single parameter \<^verbatim>\<open>searchedText\<close>, and the whole call is the same
  for any two pairs of offset and limit. With the search text absent or empty the request
  goes to the list endpoint with the offset and the limit as parameters.
\<close>

theorem getCategories_search_ignores_paging:
  "(searched \<noteq> [] \<longrightarrow>
      categories_request (Some searched) offset limit hdrs
        = \<lparr> req_method = GET, req_url = API_BASE_URL @ ''/categories/search'',
            req_query = [(''searchedText'', searched)], req_headers = hdrs, req_body = NoBody \<rparr>
      \<and> getCategories js srv (Some searched) offset limit w
          = getCategories js srv (Some searched) offset' limit' w
      \<and> (getAuthHeaders w = Inr hdrs \<longrightarrow>
            sent (snd (getCategories js srv (Some searched) offset limit w))
              = sent w @ [\<lparr> req_method = GET, req_url = API_BASE_URL @ ''/categories/search'',
                              req_query = [(''searchedText'', searched)], req_headers = hdrs,
                              req_body = NoBody \<rparr>]))
   \<and> (searchText = None \<or> searchText = Some [] \<longrightarrow>
      categories_request searchText offset limit hdrs
        = \<lparr> req_method = GET, req_url = API_BASE_URL @ ''/categories'',
            req_query = [(''offset'', show_int offset), (''limit'', show_int limit)],
            req_headers = hdrs, req_body = NoBody \<rparr>
      \<and> (getAuthHeaders w = Inr hdrs \<longrightarrow>
            sent (snd (getCategories js srv searchText offset limit w))
              = sent w @ [\<lparr> req_method = GET, req_url = API_BASE_URL @ ''/categories'',
                              req_query = [(''offset'', show_int offset),
                                           (''limit'', show_int limit)],
                              req_headers = hdrs, req_body = NoBody \<rparr>]))"
  by (auto simp: categories_request_def getCategories_def fetch_def
           split: sum.splits fetched.splits received_body.splits option.splits prod.splits)

theorem getCategories_search_ignores_paging_witness:
  "''home'' \<noteq> []
   \<and> getAuthHeaders signed_in = Inr bearer
   \<and> getCategories plain_engine (replies (JArr [])) (Some ''home'') 20 5 signed_in
       = getCategories plain_engine (replies (JArr [])) (Some ''home'') 0 10 signed_in
   \<and> sent (snd (getCategories plain_engine (replies (JArr [])) (Some ''home'') 20 5 signed_in))
       = [\<lparr> req_method = GET, req_url = ''https://api.bitechx.com/categories/search'',
            req_query = [(''searchedText'', ''home'')], req_headers = bearer,
            req_body = NoBody \<rparr>]
   \<and> sent (snd (getCategories plain_engine (replies (JArr [])) None 20 5 signed_in))
       = [\<lparr> req_method = GET, req_url = ''https://api.bitechx.com/categories'',
            req_query = [(''offset'', ''20''), (''limit'', ''5'')], req_headers = bearer,
            req_body = NoBody \<rparr>]"
proof -
  have tok: "getAuthHeaders signed_in = Inr bearer"
    by (simp add: getAuthHeaders_def)
  have same: "getCategories plain_engine (replies (JArr [])) (Some ''home'') 20 5 signed_in
       = getCategories plain_engine (replies (JArr [])) (Some ''home'') 0 10 signed_in"
    using getCategories_search_ignores_paging
            [where searched = "''home''" and offset = 20 and limit = 5
               and js = plain_engine and srv = "replies (JArr [])" and w = signed_in
               and offset' = 0 and limit' = 10]
    by simp
  have requests:
    "sent (snd (getCategories plain_engine (replies (JArr [])) (Some ''home'') 20 5 signed_in))
       = [\<lparr> req_method = GET, req_url = ''https://api.bitechx.com/categories/search'',
            req_query = [(''searchedText'', ''home'')], req_headers = bearer,
            req_body = NoBody \<rparr>]
     \<and> sent (snd (getCategories plain_engine (replies (JArr [])) None 20 5 signed_in))
       = [\<lparr> req_method = GET, req_url = ''https://api.bitechx.com/categories'',
            req_query = [(''offset'', ''20''), (''limit'', ''5'')], req_headers = bearer,
            req_body = NoBody \<rparr>]"
    using tok
          getCategories_search_ignores_paging
            [where searched = "''home''" and offset = 20 and limit = 5 and hdrs = bearer
               and js = plain_engine and srv = "replies (JArr [])" and w = signed_in
               and offset' = 20 and limit' = 5 and searchText = None]
    by (simp add: API_BASE_URL_def show_int_def digit_char_def)
  show ?thesis
    using tok same requests by blast
qed

section \<open>Properties of the login form\<close>

lemma sent_authService_login:
  "sent (snd (authService_login js srv email w)) = sent w @ [login_request email]"
  by (auto simp: authService_login_def fetch_def split: fetched.splits received_body.splits)

lemma sent_useAuth_login:
  "sent (snd (useAuth_login js srv email w)) = sent w @ [login_request email]"
  using sent_authService_login [of js srv email w]
  by (auto simp: useAuth_login_def split: prod.splits sum.splits)

text \<open>
  What \<^verbatim>\<open>handleSubmit\<close> itself does with the email it is called with: the empty one is
  answered with the error toast and nothing is sent, any other one is posted to the auth
  endpoint, and \<^verbatim>\<open>authService.login\<close> posts whatever it is given.
\<close>

lemma handleSubmit_sends_unless_empty:
  "(email = [] \<longrightarrow>
      handleSubmit js srv email w
        = show_toast \<lparr> toast_title = ''Error'',
                        toast_description = Some ''Please enter your email'',
                        toast_variant = ''destructive'' \<rparr> w
      \<and> sent (handleSubmit js srv email w) = sent w)
   \<and> (email \<noteq> [] \<longrightarrow> sent (handleSubmit js srv email w) = sent w @ [login_request email])
   \<and> sent (snd (authService_login js srv email w)) = sent w @ [login_request email]"
  using sent_useAuth_login [of js srv email w] sent_authService_login [of js srv email w]
  by (auto simp: handleSubmit_def show_toast_def split: prod.splits sum.splits)

text \<open>The field hands on what was typed without the white space around it.\<close>

lemma submit_login_form_sends_valid:
  "submit_login_form plain_engine (replies (JObj [(''token'', JStr ''t0k3n'')])) '' a@b.co ''
     signed_out
   = signed_out\<lparr> authToken := Some ''t0k3n'',
                  sent := [login_request ''a@b.co''],
                  navigated := [''/products''],
                  toasts := [\<lparr> toast_title = ''Login successful!'', toast_description = None,
                               toast_variant = ''default'' \<rparr>] \<rparr>"
  by (simp add: submit_login_form_def email_value_def strip_whitespace_def strip_newlines_def
      ascii_whitespace_def valid_email_def label_ok_def let_dig_def is_alpha_def is_digit_def
      atext_def handleSubmit_def useAuth_login_def authService_login_def fetch_def ok_def
      show_toast_def)







end
